theory Spec2Isabelle
  imports Complex_Main
begin

section \<open>JavaScript values used by the server\<close>

text \<open>
  The server half of the source (express handlers for \<^verbatim>\<open>/api/backup\<close>,
  \<^verbatim>\<open>/api/transfer\<close> and \<^verbatim>\<open>/api/upload\<close>, \<^verbatim>\<open>scheduleCleanup\<close>,
  \<^verbatim>\<open>countLinesStream\<close>, \<^verbatim>\<open>emitProgress\<close>) is embedded here. Strings are
  lists of 8-bit code units, integers are unbounded, and a request field is
  \<open>None\<close> when the body does not carry it.
\<close>

definition truthy :: "string option \<Rightarrow> bool" where
  \<comment> \<open>\<^verbatim>\<open>!!v\<close> for a string-or-undefined: undefined and the empty string are falsy.\<close>
  "truthy v = (case v of None \<Rightarrow> False | Some s \<Rightarrow> s \<noteq> [])"

definition newline :: char where
  "newline = CHR 0x0A"

definition is_ws :: "char \<Rightarrow> bool" where
  \<comment> \<open>WhiteSpace and LineTerminator code units below 256, as \<^verbatim>\<open>trim\<close> and \<^verbatim>\<open>parseInt\<close> skip them.\<close>
  "is_ws c = (of_char c \<in> {9, 10, 11, 12, 13, 32, 160 :: nat})"

definition trim :: "string \<Rightarrow> string" where
  "trim s = rev (dropWhile is_ws (rev (dropWhile is_ws s)))"

definition is_digit :: "char \<Rightarrow> bool" where
  "is_digit c = (48 \<le> (of_char c :: nat) \<and> (of_char c :: nat) \<le> 57)"

definition digit_val :: "char \<Rightarrow> int" where
  "digit_val c = int (of_char c) - 48"

definition parseInt10 :: "string \<Rightarrow> int option" where
  \<comment> \<open>\<^verbatim>\<open>parseInt(s, 10)\<close>; \<open>None\<close> is NaN.\<close>
  "parseInt10 s =
     (let S = dropWhile is_ws s;
          sign = (case S of [] \<Rightarrow> (1 :: int) | c # _ \<Rightarrow> if c = CHR ''-'' then - 1 else 1);
          S' = (case S of [] \<Rightarrow> S | c # r \<Rightarrow> if c = CHR ''-'' \<or> c = CHR ''+'' then r else S);
          Z = takeWhile is_digit S'
      in if Z = [] then None else Some (sign * foldl (\<lambda>a c. 10 * a + digit_val c) 0 Z))"

definition ToString :: "string option \<Rightarrow> string" where
  \<comment> \<open>What \<^verbatim>\<open>parseInt\<close> does to its argument first: an absent field reads \<^verbatim>\<open>"undefined"\<close>.\<close>
  "ToString v = (case v of None \<Rightarrow> ''undefined'' | Some s \<Rightarrow> s)"

definition BATCH_SIZE_of :: "string option \<Rightarrow> int" where
  \<comment> \<open>\<^verbatim>\<open>parseInt(req.body.batchSize, 10) || 1000\<close>: NaN and 0 are falsy.\<close>
  "BATCH_SIZE_of batchSize =
     (case parseInt10 (ToString batchSize) of
        None \<Rightarrow> 1000
      | Some n \<Rightarrow> if n = 0 then 1000 else n)"

fun digits :: "nat \<Rightarrow> string" where
  "digits n = (if n < 10 then [char_of (48 + n)] else digits (n div 10) @ [char_of (48 + n mod 10)])"

definition decimal :: "int \<Rightarrow> string" where
  \<comment> \<open>The decimal numeral of an integer, as template literals and form fields write it.\<close>
  "decimal n = (if n < 0 then CHR ''-'' # digits (nat (- n)) else digits (nat n))"


subsection \<open>Numbers and the progress figures\<close>

text \<open>
  Counts and timestamps are integers. A quotient is a rational passed through
  \<open>fl\<close>, the rounding of a real to the nearest double that every JavaScript
  arithmetic operation applies to its exact result; \<open>fl = (\<lambda>x. x)\<close> is exact
  arithmetic. \<^verbatim>\<open>Math.round\<close>, \<^verbatim>\<open>Math.min\<close> and \<^verbatim>\<open>Math.max\<close> are exact.
  \<open>totalDocs\<close> is \<open>None\<close> for \<^verbatim>\<open>null\<close> (the upload handler's fallback).
\<close>

datatype jv = JNull | JUndefined | JNum int | JStr string | JStrs "string list" | JBool bool

type_synonym payload = "(string \<times> jv) list"

definition Math_round :: "rat \<Rightarrow> int" where
  "Math_round x = \<lfloor>x + 1 / 2\<rfloor>"

definition elapsedSec_of :: "(rat \<Rightarrow> rat) \<Rightarrow> int \<Rightarrow> int \<Rightarrow> rat" where
  \<comment> \<open>\<^verbatim>\<open>Math.max(1, (Date.now() - start) / 1000)\<close>\<close>
  "elapsedSec_of fl t start = max 1 (fl (of_int (t - start) / 1000))"

definition speed_of :: "(rat \<Rightarrow> rat) \<Rightarrow> int \<Rightarrow> rat \<Rightarrow> int" where
  \<comment> \<open>\<^verbatim>\<open>Math.round(docsDone / elapsedSec)\<close>\<close>
  "speed_of fl docsDone elapsedSec = Math_round (fl (of_int docsDone / elapsedSec))"

definition percent_of :: "(rat \<Rightarrow> rat) \<Rightarrow> int option \<Rightarrow> int \<Rightarrow> jv" where
  \<comment> \<open>\<^verbatim>\<open>totalDocs ? Math.min(100, Math.round((docsDone / totalDocs) * 100)) : null\<close>\<close>
  "percent_of fl totalDocs docsDone =
     (case totalDocs of
        None \<Rightarrow> JNull
      | Some tot \<Rightarrow>
          if tot = 0 then JNull
          else JNum (min 100 (Math_round (fl (fl (of_int docsDone / of_int tot) * 100)))))"

definition etaSec_of :: "(rat \<Rightarrow> rat) \<Rightarrow> int option \<Rightarrow> int \<Rightarrow> int \<Rightarrow> jv" where
  \<comment> \<open>\<^verbatim>\<open>totalDocs && speed ? Math.max(0, Math.round((totalDocs - docsDone) / speed)) : null\<close>\<close>
  "etaSec_of fl totalDocs docsDone speed =
     (case totalDocs of
        None \<Rightarrow> JNull
      | Some tot \<Rightarrow>
          if tot = 0 \<or> speed = 0 then JNull
          else JNum (max 0 (Math_round (fl (of_int (tot - docsDone) / of_int speed)))))"

definition jnum_or_null :: "int option \<Rightarrow> jv" where
  "jnum_or_null v = (case v of None \<Rightarrow> JNull | Some n \<Rightarrow> JNum n)"

section \<open>The cleanup registry\<close>

text \<open>
  \<^verbatim>\<open>scheduledCleanups\<close> is the process-wide Map from a path to its timer.
  \<open>timers\<close> are the armed timeouts (handle, path, delay argument), \<open>removing\<close> the
  callbacks that have fired and wait on \<^verbatim>\<open>fs.remove\<close>, \<open>warnings\<close> what
  \<^verbatim>\<open>console.warn\<close> received. A delay of \<open>None\<close> is NaN.
\<close>

record cleanups =
  scheduledCleanups :: "string \<rightharpoonup> nat"
  timers :: "(nat \<times> string \<times> int option) list"
  nextTimer :: nat
  removing :: "string list"
  warnings :: "string list"

definition no_cleanups :: cleanups where
  "no_cleanups = \<lparr>scheduledCleanups = Map.empty, timers = [], nextTimer = 0, removing = [], warnings = []\<rparr>"

definition CLEANUP_TTL_MIN :: "string option \<Rightarrow> int option" where
  \<comment> \<open>\<^verbatim>\<open>parseInt(process.env.CLEANUP_TTL_MIN || "60", 10)\<close>\<close>
  "CLEANUP_TTL_MIN envvar = parseInt10 (if truthy envvar then the envvar else ''60'')"

definition default_ttlMs :: "string option \<Rightarrow> int option" where
  \<comment> \<open>The default parameter \<^verbatim>\<open>CLEANUP_TTL_MIN * 60 * 1000\<close>.\<close>
  "default_ttlMs envvar = map_option (\<lambda>m. m * 60 * 1000) (CLEANUP_TTL_MIN envvar)"

definition scheduleCleanup :: "string \<Rightarrow> int option \<Rightarrow> cleanups \<Rightarrow> cleanups" where
  "scheduleCleanup absPath ttlMs r =
     (if scheduledCleanups r absPath \<noteq> None then r
      else let t = nextTimer r
           in r\<lparr>timers := timers r @ [(t, absPath, ttlMs)],
                nextTimer := Suc t,
                scheduledCleanups := (scheduledCleanups r)(absPath \<mapsto> t)\<rparr>)"

definition timerFires :: "nat \<Rightarrow> cleanups \<Rightarrow> cleanups" where
  \<comment> \<open>The timeout with handle \<open>t\<close> expires: it leaves the armed timers (one shot) and its callback starts \<^verbatim>\<open>fs.remove\<close>.\<close>
  "timerFires t r =
     (case find (\<lambda>x. fst x = t) (timers r) of
        None \<Rightarrow> r
      | Some x \<Rightarrow> r\<lparr>timers := filter (\<lambda>y. fst y \<noteq> t) (timers r),
                     removing := removing r @ [fst (snd x)]\<rparr>)"

definition removeSettles :: "string \<Rightarrow> bool \<Rightarrow> cleanups \<Rightarrow> cleanups" where
  \<comment> \<open>\<^verbatim>\<open>fs.remove(absPath)\<close> of a fired callback resolves (\<open>ok\<close>) or rejects: a warning on failure, then \<^verbatim>\<open>scheduledCleanups.delete(absPath)\<close> either way.\<close>
  "removeSettles absPath ok r =
     (if absPath \<in> set (removing r)
      then r\<lparr>removing := remove1 absPath (removing r),
             warnings := (if ok then warnings r else warnings r @ [''cleanup remove failed '' @ absPath]),
             scheduledCleanups := (scheduledCleanups r)(absPath := None)\<rparr>
      else r)"

datatype action = ScheduleCleanup string "int option" | TimerFires nat | RemoveSettles string bool

fun act :: "action \<Rightarrow> cleanups \<Rightarrow> cleanups" where
  "act (ScheduleCleanup absPath ttlMs) r = scheduleCleanup absPath ttlMs r"
| "act (TimerFires t) r = timerFires t r"
| "act (RemoveSettles absPath ok) r = removeSettles absPath ok r"

definition run :: "action list \<Rightarrow> cleanups \<Rightarrow> cleanups" where
  "run acts r = foldl (\<lambda>r a. act a r) r acts"

definition pending :: "cleanups \<Rightarrow> string \<Rightarrow> (nat \<times> string \<times> int option) list" where
  \<comment> \<open>The armed timers that will delete \<open>absPath\<close>.\<close>
  "pending r absPath = filter (\<lambda>x. fst (snd x) = absPath) (timers r)"

section \<open>The handlers' world\<close>

text \<open>
  Every call a handler makes to the MongoDB driver or to the file system is
  an \<open>op\<close>. The environment decides which calls throw (\<open>fault\<close>, by the
  position of the call among all fallible calls of the run, with the error's
  message), what the clock reads (\<open>now\<close>, by the position of the read), what
  the source database holds (\<open>database\<close>: each collection's name, the value
  \<^verbatim>\<open>countDocuments\<close> resolves to, a count, and the documents its cursor yields) and
  what the extracted upload holds (\<open>extracted\<close>: each file's name and the
  chunks its read stream delivers). \<^verbatim>\<open>JSON.parse\<close> and \<^verbatim>\<open>JSON.stringify\<close>
  are parameters; \<open>None\<close> is a SyntaxError.
\<close>

datatype client = TheClient | SrcClient | DstClient

datatype 'd op =
    EnsureDir string
  | NewMongoClient client "string option"
  | Connect client
  | ListCollections
  | CountDocuments string
  | DeleteMany string
  | HasNext string
  | Next string
  | InsertMany string "'d list"
  | Close client
  | Archive string string
  | Extract string string
  | Readdir string
  | CountLinesStream string
  | ReadChunk string
  | FsRemove string

datatype 'd eff =
    Call "'d op"
  | Raise "'d op" string
  | Emit "string option" string payload
  | WsOpen string
  | WsWrite string string
  | WsEnd string
  | Schedule string
  | Res nat payload

record 'd env =
  fault :: "nat \<Rightarrow> string option"
  now :: "nat \<Rightarrow> int"
  fl :: "rat \<Rightarrow> rat"
  JSON_parse :: "string \<Rightarrow> 'd option"
  JSON_stringify :: "'d \<Rightarrow> string"
  database :: "(string \<times> nat \<times> 'd list) list"
  extracted :: "(string \<times> string list) list"
  ttl_envvar :: "string option"

text \<open>
  \<open>trace\<close> is everything the handler did, in order: each driver or file-system
  call with its outcome, each \<^verbatim>\<open>emitProgress\<close> call with its arguments,
  each response. \<open>wire\<close> is what \<^verbatim>\<open>io.to(socketId).emit\<close> was given.
\<close>

record 'd world =
  trace :: "'d eff list"
  wire :: "(string \<times> string \<times> payload) list"
  ncalls :: nat
  nticks :: nat
  headersSent :: bool
  registry :: cleanups


text \<open>
  A computation ends with a value, with a thrown error (its message), or, for
  the two \<^verbatim>\<open>while\<close> loops that need not end, without fuel.
\<close>

datatype 'a res = Ok 'a | Threw string | Starved

definition did :: "'d eff list \<Rightarrow> 'd world \<Rightarrow> 'd world" where
  "did es w = w\<lparr>trace := trace w @ es\<rparr>"

definition call :: "'d env \<Rightarrow> 'd op \<Rightarrow> 'd world \<Rightarrow> 'd world \<times> unit res" where
  "call e c w =
     (case fault e (ncalls w) of
        None \<Rightarrow> (did [Call c] (w\<lparr>ncalls := Suc (ncalls w)\<rparr>), Ok ())
      | Some msg \<Rightarrow> (did [Raise c msg] (w\<lparr>ncalls := Suc (ncalls w)\<rparr>), Threw msg))"

definition Date_now :: "'d env \<Rightarrow> 'd world \<Rightarrow> int \<times> 'd world" where
  "Date_now e w = (now e (nticks w), w\<lparr>nticks := Suc (nticks w)\<rparr>)"

definition emitProgress :: "string option \<Rightarrow> string \<Rightarrow> payload \<Rightarrow> 'd world \<Rightarrow> 'd world" where
  \<comment> \<open>\<^verbatim>\<open>if (!socketId) return; io.to(socketId).emit(event, payload);\<close>\<close>
  "emitProgress socketId event payload w =
     (let w' = did [Emit socketId event payload] w
      in if \<not> truthy socketId then w'
         else w'\<lparr>wire := wire w' @ [(the socketId, event, payload)]\<rparr>)"

definition respond :: "nat \<Rightarrow> payload \<Rightarrow> 'd world \<Rightarrow> 'd world \<times> unit res" where
  \<comment> \<open>\<^verbatim>\<open>res.status(n).json(body)\<close>; a second response throws.\<close>
  "respond status body w =
     (if headersSent w then (w, Threw ''Cannot set headers after they are sent to the client'')
      else (did [Res status body] (w\<lparr>headersSent := True\<rparr>), Ok ()))"

definition UPLOAD_DIR :: string where
  "UPLOAD_DIR = ''uploads''"

definition path_join :: "string \<Rightarrow> string \<Rightarrow> string" where
  "path_join a b = a @ ''/'' @ b"

definition basename :: "string \<Rightarrow> string" where
  "basename p = rev (takeWhile (\<lambda>c. c \<noteq> CHR ''/'') (rev p))"

definition progress_payload ::
  "(rat \<Rightarrow> rat) \<Rightarrow> string \<Rightarrow> string \<Rightarrow> int option \<Rightarrow> int \<Rightarrow> int \<Rightarrow> int \<Rightarrow> payload" where
  \<comment> \<open>The figures of one progress event, computed as the three handlers do after a batch: \<open>key\<close> is \<^verbatim>\<open>docsDone\<close>, \<^verbatim>\<open>transferred\<close> or \<^verbatim>\<open>importedCount\<close>.\<close>
  "progress_payload rnd name key totalDocs docsDone t start =
     (let elapsedSec = elapsedSec_of rnd t start;
          speed = speed_of rnd docsDone elapsedSec;
          percent = percent_of rnd totalDocs docsDone;
          etaSec = etaSec_of rnd totalDocs docsDone speed
      in [(''collection'', JStr name), (key, JNum docsDone), (''totalDocs'', jnum_or_null totalDocs),
          (''percent'', percent), (''speed'', JNum speed), (''etaSec'', etaSec)])"

section \<open>The batch pull\<close>

fun pull ::
  "'d env \<Rightarrow> string \<Rightarrow> int \<Rightarrow> int \<Rightarrow> 'd list \<Rightarrow> 'd list \<Rightarrow> 'd world \<Rightarrow> 'd world \<times> ('d list \<times> 'd list) res" where
  \<comment> \<open>\<^verbatim>\<open>for (let i = 0; i < BATCH_SIZE && (await cursor.hasNext()); i++) batch.push(await cursor.next())\<close>, from \<open>i\<close>: the batch and the cursor's rest.\<close>
  "pull e name BATCH_SIZE i cursor batch w =
     (if i < BATCH_SIZE then
        (case call e (HasNext name) w of
           (w1, Threw m) \<Rightarrow> (w1, Threw m)
         | (w1, Starved) \<Rightarrow> (w1, Starved)
         | (w1, Ok _) \<Rightarrow>
            (case cursor of
               [] \<Rightarrow> (w1, Ok (batch, cursor))
             | d # rest \<Rightarrow>
                (case call e (Next name) w1 of
                   (w2, Threw m) \<Rightarrow> (w2, Threw m)
                 | (w2, Starved) \<Rightarrow> (w2, Starved)
                 | (w2, Ok _) \<Rightarrow> pull e name BATCH_SIZE (i + 1) rest (batch @ [d]) w2)))
      else (w, Ok (batch, cursor)))"

section \<open>Requests\<close>

text \<open>
  One record for \<^verbatim>\<open>req.body\<close> of the three routes and \<^verbatim>\<open>req.file\<close>
  (\<open>req_file\<close> is \<^verbatim>\<open>req.file.path\<close>, absent when no file was uploaded).
\<close>

record req =
  uri :: "string option"
  dbName :: "string option"
  srcUri :: "string option"
  srcDb :: "string option"
  dstUri :: "string option"
  dstDb :: "string option"
  socketId :: "string option"
  batchSize :: "string option"
  req_file :: "string option"

definition finally_close :: "'d env \<Rightarrow> client \<Rightarrow> 'd world \<times> unit res \<Rightarrow> 'd world \<times> unit res" where
  \<comment> \<open>\<^verbatim>\<open>finally { if (client) await client.close(); }\<close> for a client that was constructed: an error of \<^verbatim>\<open>close\<close> replaces the outcome.\<close>
  "finally_close e c x =
     (case x of
        (w, Starved) \<Rightarrow> (w, Starved)
      | (w, r) \<Rightarrow>
          (case call e (Close c) w of
             (w1, Ok _) \<Rightarrow> (w1, r)
           | (w1, Threw m) \<Rightarrow> (w1, Threw m)
           | (w1, Starved) \<Rightarrow> (w1, Starved)))"

definition catch_error :: "string option \<Rightarrow> string \<Rightarrow> 'd world \<times> unit res \<Rightarrow> 'd world \<times> unit res" where
  \<comment> \<open>\<^verbatim>\<open>catch (err) { emitProgress(socketId, event, { message: err.message }); res.status(500).json({ error: err.message }); }\<close>\<close>
  "catch_error sid event x =
     (case x of
        (w, Threw m) \<Rightarrow> respond 500 [(''error'', JStr m)] (emitProgress sid event [(''message'', JStr m)] w)
      | (w, r) \<Rightarrow> (w, r))"

definition countDocuments :: "'d env \<Rightarrow> string \<Rightarrow> int \<Rightarrow> 'd world \<Rightarrow> int \<times> 'd world" where
  \<comment> \<open>\<^verbatim>\<open>let totalDocs = 0; try { totalDocs = await coll.countDocuments(); } catch (e) { totalDocs = 0; }\<close>\<close>
  "countDocuments e name cnt w =
     (case call e (CountDocuments name) w of
        (w1, Ok _) \<Rightarrow> (cnt, w1)
      | (w1, _) \<Rightarrow> (0, w1))"

section \<open>Export: POST /api/backup\<close>

fun backupLoop ::
  "nat \<Rightarrow> 'd env \<Rightarrow> string option \<Rightarrow> string \<Rightarrow> string \<Rightarrow> int \<Rightarrow> int \<Rightarrow> int \<Rightarrow> 'd list \<Rightarrow> int \<Rightarrow> 'd world
     \<Rightarrow> 'd world \<times> unit res" where
  \<comment> \<open>\<^verbatim>\<open>while (await cursor.hasNext()) { ... }\<close> of the backup handler; one unit of fuel per test of the loop condition.\<close>
  "backupLoop 0 e sid name outFile BATCH_SIZE totalDocs start cursor docsDone w = (w, Starved)"
| "backupLoop (Suc fuel) e sid name outFile BATCH_SIZE totalDocs start cursor docsDone w =
     (case call e (HasNext name) w of
        (w1, Threw m) \<Rightarrow> (w1, Threw m)
      | (w1, Starved) \<Rightarrow> (w1, Starved)
      | (w1, Ok _) \<Rightarrow>
         if cursor = [] then (w1, Ok ())
         else
           (case pull e name BATCH_SIZE 0 cursor [] w1 of
              (w2, Threw m) \<Rightarrow> (w2, Threw m)
            | (w2, Starved) \<Rightarrow> (w2, Starved)
            | (w2, Ok (batch, cursor')) \<Rightarrow>
               (let w3 = did (map (\<lambda>d. WsWrite outFile (JSON_stringify e d @ [newline])) batch) w2;
                    docsDone' = docsDone + int (length batch);
                    (t, w4) = Date_now e w3;
                    w5 = emitProgress sid ''backup-progress''
                           (progress_payload (fl e) name ''docsDone'' (Some totalDocs) docsDone' t start) w4
                in backupLoop fuel e sid name outFile BATCH_SIZE totalDocs start cursor' docsDone' w5)))"

definition backupCollection ::
  "nat \<Rightarrow> 'd env \<Rightarrow> string option \<Rightarrow> string \<Rightarrow> int \<Rightarrow> int \<Rightarrow> string \<times> nat \<times> 'd list \<Rightarrow> 'd world
     \<Rightarrow> 'd world \<times> unit res" where
  \<comment> \<open>The body of \<^verbatim>\<open>for (const collInfo of collections)\<close>, with \<open>collIndex\<close> as it stands on entry.\<close>
  "backupCollection fuel e sid outDir BATCH_SIZE collIndex c w =
     (let name = fst c;
          (totalDocs, w1) = countDocuments e name (int (fst (snd c))) w;
          outFile = path_join outDir (name @ ''.ndjson'');
          w2 = emitProgress sid ''backup-collection-start''
                 [(''collection'', JStr name), (''index'', JNum collIndex), (''totalDocs'', JNum totalDocs)]
                 (did [WsOpen outFile] w1);
          (start, w3) = Date_now e w2
      in case backupLoop fuel e sid name outFile BATCH_SIZE totalDocs start (snd (snd c)) 0 w3 of
           (w4, Threw m) \<Rightarrow> (w4, Threw m)
         | (w4, Starved) \<Rightarrow> (w4, Starved)
         | (w4, Ok _) \<Rightarrow>
            (emitProgress sid ''backup-collection-done''
               [(''collection'', JStr name), (''index'', JNum (collIndex + 1)), (''docsDone'', JUndefined)]
               (did [WsEnd outFile] w4), Ok ()))"

fun backupCollections ::
  "nat \<Rightarrow> 'd env \<Rightarrow> string option \<Rightarrow> string \<Rightarrow> int \<Rightarrow> int \<Rightarrow> (string \<times> nat \<times> 'd list) list \<Rightarrow> 'd world
     \<Rightarrow> 'd world \<times> unit res" where
  "backupCollections fuel e sid outDir BATCH_SIZE collIndex [] w = (w, Ok ())"
| "backupCollections fuel e sid outDir BATCH_SIZE collIndex (c # cs) w =
     (case backupCollection fuel e sid outDir BATCH_SIZE collIndex c w of
        (w1, Threw m) \<Rightarrow> (w1, Threw m)
      | (w1, Starved) \<Rightarrow> (w1, Starved)
      | (w1, Ok _) \<Rightarrow> backupCollections fuel e sid outDir BATCH_SIZE (collIndex + 1) cs w1)"

definition backup_try :: "nat \<Rightarrow> 'd env \<Rightarrow> req \<Rightarrow> int \<Rightarrow> string \<Rightarrow> 'd world \<Rightarrow> 'd world \<times> unit res" where
  \<comment> \<open>The \<^verbatim>\<open>try\<close> block after \<^verbatim>\<open>client = new MongoClient(uri)\<close>.\<close>
  "backup_try fuel e r timestamp outDir w =
     (case call e (Connect TheClient) w of
        (w1, Threw m) \<Rightarrow> (w1, Threw m)
      | (w1, Starved) \<Rightarrow> (w1, Starved)
      | (w1, Ok _) \<Rightarrow>
     (case call e ListCollections w1 of
        (w2, Threw m) \<Rightarrow> (w2, Threw m)
      | (w2, Starved) \<Rightarrow> (w2, Starved)
      | (w2, Ok _) \<Rightarrow>
     (let collections = database e;
          BATCH_SIZE = BATCH_SIZE_of (batchSize r);
          w3 = emitProgress (socketId r) ''backup-start''
                 [(''totalCollections'', JNum (int (length collections))),
                  (''collections'', JStrs (map fst collections)),
                  (''batchSize'', JNum BATCH_SIZE)] w2
      in case backupCollections fuel e (socketId r) outDir BATCH_SIZE 0 collections w3 of
           (w4, Threw m) \<Rightarrow> (w4, Threw m)
         | (w4, Starved) \<Rightarrow> (w4, Starved)
         | (w4, Ok _) \<Rightarrow>
     (let zipPath = path_join UPLOAD_DIR (the (dbName r) @ ''-'' @ decimal timestamp @ ''.zip'')
      in case call e (Archive outDir zipPath) w4 of
           (w5, Threw m) \<Rightarrow> (w5, Threw m)
         | (w5, Starved) \<Rightarrow> (w5, Starved)
         | (w5, Ok _) \<Rightarrow>
             respond 200 [(''ok'', JBool True), (''zip'', JStr (''/download/'' @ basename zipPath))]
               (emitProgress (socketId r) ''backup-done''
                  [(''zip'', JStr (''/download/'' @ basename zipPath))] w5)))))"

definition backup :: "nat \<Rightarrow> 'd env \<Rightarrow> req \<Rightarrow> 'd world \<Rightarrow> 'd world \<times> unit res" where
  \<comment> \<open>\<^verbatim>\<open>app.post("/api/backup", ...)\<close>. \<open>Threw\<close> is a rejection of the handler's promise.\<close>
  "backup fuel e r w =
     (if \<not> truthy (uri r) \<or> \<not> truthy (dbName r)
      then respond 400 [(''error'', JStr ''Missing uri or dbName'')] w
      else
        (let (timestamp, w1) = Date_now e w;
             outDir = path_join UPLOAD_DIR (the (dbName r) @ ''-'' @ decimal timestamp)
         in case call e (EnsureDir outDir) w1 of
              (w2, Threw m) \<Rightarrow> (w2, Threw m)
            | (w2, Starved) \<Rightarrow> (w2, Starved)
            | (w2, Ok _) \<Rightarrow>
               (case call e (NewMongoClient TheClient (uri r)) w2 of
                  (w3, Ok _) \<Rightarrow>
                    finally_close e TheClient
                      (catch_error (socketId r) ''backup-error'' (backup_try fuel e r timestamp outDir w3))
                | (w3, x) \<Rightarrow> catch_error (socketId r) ''backup-error'' (w3, x))))"

section \<open>Copy: POST /api/transfer\<close>

fun transferLoop ::
  "nat \<Rightarrow> 'd env \<Rightarrow> string option \<Rightarrow> string \<Rightarrow> int \<Rightarrow> int \<Rightarrow> int \<Rightarrow> 'd list \<Rightarrow> int \<Rightarrow> 'd world
     \<Rightarrow> 'd world \<times> unit res" where
  \<comment> \<open>\<^verbatim>\<open>while (await cursor.hasNext()) { ... }\<close> of the transfer handler.\<close>
  "transferLoop 0 e sid name BATCH_SIZE totalDocs tstart cursor transferred w = (w, Starved)"
| "transferLoop (Suc fuel) e sid name BATCH_SIZE totalDocs tstart cursor transferred w =
     (case call e (HasNext name) w of
        (w1, Threw m) \<Rightarrow> (w1, Threw m)
      | (w1, Starved) \<Rightarrow> (w1, Starved)
      | (w1, Ok _) \<Rightarrow>
         if cursor = [] then (w1, Ok ())
         else
           (case pull e name BATCH_SIZE 0 cursor [] w1 of
              (w2, Threw m) \<Rightarrow> (w2, Threw m)
            | (w2, Starved) \<Rightarrow> (w2, Starved)
            | (w2, Ok (batch, cursor')) \<Rightarrow>
               if batch \<noteq> [] then
                 (case call e (InsertMany name batch) w2 of
                    (w3, Threw m) \<Rightarrow> (w3, Threw m)
                  | (w3, Starved) \<Rightarrow> (w3, Starved)
                  | (w3, Ok _) \<Rightarrow>
                     (let transferred' = transferred + int (length batch);
                          (t, w4) = Date_now e w3;
                          w5 = emitProgress sid ''transfer-progress''
                                 (progress_payload (fl e) name ''transferred'' (Some totalDocs) transferred' t tstart) w4
                      in transferLoop fuel e sid name BATCH_SIZE totalDocs tstart cursor' transferred' w5))
               else transferLoop fuel e sid name BATCH_SIZE totalDocs tstart cursor' transferred w2))"

definition transferCollection ::
  "nat \<Rightarrow> 'd env \<Rightarrow> string option \<Rightarrow> int \<Rightarrow> int \<Rightarrow> string \<times> nat \<times> 'd list \<Rightarrow> 'd world \<Rightarrow> 'd world \<times> unit res" where
  \<comment> \<open>The body of \<^verbatim>\<open>for (const c of collections)\<close>, with \<open>migratedCollections\<close> as it stands on entry.\<close>
  "transferCollection fuel e sid BATCH_SIZE migratedCollections c w =
     (let name = fst c;
          (totalDocs, w1) = countDocuments e name (int (fst (snd c))) w
      in case call e (DeleteMany name) w1 of
           (w2, Threw m) \<Rightarrow> (w2, Threw m)
         | (w2, Starved) \<Rightarrow> (w2, Starved)
         | (w2, Ok _) \<Rightarrow>
            (let w3 = emitProgress sid ''transfer-collection-start''
                        [(''collection'', JStr name), (''migratedCollections'', JNum migratedCollections),
                         (''totalDocs'', JNum totalDocs)] w2;
                 (tstart, w4) = Date_now e w3
             in case transferLoop fuel e sid name BATCH_SIZE totalDocs tstart (snd (snd c)) 0 w4 of
                  (w5, Threw m) \<Rightarrow> (w5, Threw m)
                | (w5, Starved) \<Rightarrow> (w5, Starved)
                | (w5, Ok _) \<Rightarrow>
                   (emitProgress sid ''transfer-collection-done''
                      [(''collection'', JStr name), (''migratedCollections'', JNum (migratedCollections + 1))] w5,
                    Ok ())))"

fun transferCollections ::
  "nat \<Rightarrow> 'd env \<Rightarrow> string option \<Rightarrow> int \<Rightarrow> int \<Rightarrow> (string \<times> nat \<times> 'd list) list \<Rightarrow> 'd world
     \<Rightarrow> 'd world \<times> int res" where
  "transferCollections fuel e sid BATCH_SIZE migratedCollections [] w = (w, Ok migratedCollections)"
| "transferCollections fuel e sid BATCH_SIZE migratedCollections (c # cs) w =
     (case transferCollection fuel e sid BATCH_SIZE migratedCollections c w of
        (w1, Threw m) \<Rightarrow> (w1, Threw m)
      | (w1, Starved) \<Rightarrow> (w1, Starved)
      | (w1, Ok _) \<Rightarrow> transferCollections fuel e sid BATCH_SIZE (migratedCollections + 1) cs w1)"

definition transfer_try :: "nat \<Rightarrow> 'd env \<Rightarrow> req \<Rightarrow> 'd world \<Rightarrow> 'd world \<times> unit res" where
  \<comment> \<open>The \<^verbatim>\<open>try\<close> block after both clients are constructed.\<close>
  "transfer_try fuel e r w =
     (case call e (Connect SrcClient) w of
        (w1, Threw m) \<Rightarrow> (w1, Threw m)
      | (w1, Starved) \<Rightarrow> (w1, Starved)
      | (w1, Ok _) \<Rightarrow>
     (case call e (Connect DstClient) w1 of
        (w2, Threw m) \<Rightarrow> (w2, Threw m)
      | (w2, Starved) \<Rightarrow> (w2, Starved)
      | (w2, Ok _) \<Rightarrow>
     (case call e ListCollections w2 of
        (w3, Threw m) \<Rightarrow> (w3, Threw m)
      | (w3, Starved) \<Rightarrow> (w3, Starved)
      | (w3, Ok _) \<Rightarrow>
     (let collections = database e;
          w4 = emitProgress (socketId r) ''transfer-start''
                 [(''totalCollections'', JNum (int (length collections)))] w3;
          BATCH_SIZE = BATCH_SIZE_of (batchSize r)
      in case transferCollections fuel e (socketId r) BATCH_SIZE 0 collections w4 of
           (w5, Threw m) \<Rightarrow> (w5, Threw m)
         | (w5, Starved) \<Rightarrow> (w5, Starved)
         | (w5, Ok migratedCollections) \<Rightarrow>
             respond 200 [(''ok'', JBool True), (''migratedCollections'', JNum migratedCollections)]
               (emitProgress (socketId r) ''transfer-done''
                  [(''migratedCollections'', JNum migratedCollections)] w5)))))"

definition finally_close2 :: "'d env \<Rightarrow> 'd world \<times> unit res \<Rightarrow> 'd world \<times> unit res" where
  \<comment> \<open>\<^verbatim>\<open>finally { if (srcClient) await srcClient.close(); if (dstClient) await dstClient.close(); }\<close> with both clients constructed.\<close>
  "finally_close2 e x =
     (case x of
        (w, Starved) \<Rightarrow> (w, Starved)
      | (w, r) \<Rightarrow>
          (case call e (Close SrcClient) w of
             (w1, Threw m) \<Rightarrow> (w1, Threw m)
           | (w1, Starved) \<Rightarrow> (w1, Starved)
           | (w1, Ok _) \<Rightarrow>
              (case call e (Close DstClient) w1 of
                 (w2, Ok _) \<Rightarrow> (w2, r)
               | (w2, Threw m) \<Rightarrow> (w2, Threw m)
               | (w2, Starved) \<Rightarrow> (w2, Starved))))"

definition transfer :: "nat \<Rightarrow> 'd env \<Rightarrow> req \<Rightarrow> 'd world \<Rightarrow> 'd world \<times> unit res" where
  \<comment> \<open>\<^verbatim>\<open>app.post("/api/transfer", ...)\<close>\<close>
  "transfer fuel e r w =
     (if \<not> truthy (srcUri r) \<or> \<not> truthy (srcDb r) \<or> \<not> truthy (dstUri r) \<or> \<not> truthy (dstDb r)
      then respond 400 [(''error'', JStr ''Missing params'')] w
      else
        (case call e (NewMongoClient SrcClient (srcUri r)) w of
           (w1, Ok _) \<Rightarrow>
             (case call e (NewMongoClient DstClient (dstUri r)) w1 of
                (w2, Ok _) \<Rightarrow>
                  finally_close2 e (catch_error (socketId r) ''transfer-error'' (transfer_try fuel e r w2))
              | (w2, x) \<Rightarrow>
                  finally_close e SrcClient (catch_error (socketId r) ''transfer-error'' (w2, x)))
         | (w1, x) \<Rightarrow> catch_error (socketId r) ''transfer-error'' (w1, x)))"

section \<open>Import: POST /api/upload\<close>

definition indexOf :: "string \<Rightarrow> char \<Rightarrow> nat option" where
  \<comment> \<open>\<^verbatim>\<open>buffer.indexOf(c)\<close>; \<open>None\<close> is -1.\<close>
  "indexOf buffer c =
     (let n = length (takeWhile (\<lambda>x. x \<noteq> c) buffer)
      in if n < length buffer then Some n else None)"

definition endsWith :: "string \<Rightarrow> string \<Rightarrow> bool" where
  "endsWith f suf = (length suf \<le> length f \<and> drop (length f - length suf) f = suf)"

definition collName_of :: "string \<Rightarrow> string" where
  \<comment> \<open>\<^verbatim>\<open>f.replace(/\.(ndjson|json)$/, "")\<close>\<close>
  "collName_of f =
     (if endsWith f ''.ndjson'' then take (length f - 7) f
      else if endsWith f ''.json'' then take (length f - 5) f
      else f)"

definition countLinesStream :: "'d env \<Rightarrow> string \<Rightarrow> string list \<Rightarrow> 'd world \<Rightarrow> 'd world \<times> int res" where
  \<comment> \<open>Resolves to the number of \<^verbatim>\<open>"\n"\<close> in the file, or rejects on a stream error.\<close>
  "countLinesStream e filePath chunks w =
     (case call e (CountLinesStream filePath) w of
        (w1, Ok _) \<Rightarrow> (w1, Ok (int (length (filter (\<lambda>c. c = newline) (concat chunks)))))
      | (w1, Threw m) \<Rightarrow> (w1, Threw m)
      | (w1, Starved) \<Rightarrow> (w1, Starved))"

function drain ::
  "'d env \<Rightarrow> string option \<Rightarrow> string \<Rightarrow> int \<Rightarrow> int option \<Rightarrow> int \<Rightarrow> string \<Rightarrow> 'd list \<Rightarrow> int \<Rightarrow> 'd world
     \<Rightarrow> 'd world \<times> (string \<times> 'd list \<times> int) res" where
  \<comment> \<open>\<^verbatim>\<open>while ((idx = buffer.indexOf("\n")) >= 0) { ... }\<close>: the buffer, the batch and the count it leaves.\<close>
  "drain e sid collName BATCH_SIZE totalDocs ustart buffer docsBatch importedCount w =
     (case indexOf buffer newline of
        None \<Rightarrow> (w, Ok (buffer, docsBatch, importedCount))
      | Some idx \<Rightarrow>
         (let line = trim (take idx buffer);
              buffer' = drop (idx + 1) buffer
          in if line = [] then drain e sid collName BATCH_SIZE totalDocs ustart buffer' docsBatch importedCount w
             else
               (case JSON_parse e line of
                  None \<Rightarrow> drain e sid collName BATCH_SIZE totalDocs ustart buffer' docsBatch importedCount w
                | Some obj \<Rightarrow>
                   (let docsBatch' = docsBatch @ [obj]
                    in if int (length docsBatch') \<ge> BATCH_SIZE then
                         (case call e (InsertMany collName docsBatch') w of
                            (w1, Threw m) \<Rightarrow> (w1, Threw m)
                          | (w1, Starved) \<Rightarrow> (w1, Starved)
                          | (w1, Ok _) \<Rightarrow>
                             (let importedCount' = importedCount + int (length docsBatch');
                                  (t, w2) = Date_now e w1;
                                  w3 = emitProgress sid ''upload-progress''
                                         (progress_payload (fl e) collName ''importedCount'' totalDocs importedCount' t ustart) w2
                              in drain e sid collName BATCH_SIZE totalDocs ustart buffer' [] importedCount' w3))
                       else drain e sid collName BATCH_SIZE totalDocs ustart buffer' docsBatch' importedCount w))))"
  by pat_completeness auto
termination
  by (relation "measure (\<lambda>(e, sid, collName, BATCH_SIZE, totalDocs, ustart, buffer, docsBatch, importedCount, w). length buffer)")
     (auto simp: indexOf_def Let_def split: if_splits)

fun importChunks ::
  "'d env \<Rightarrow> string option \<Rightarrow> string \<Rightarrow> string \<Rightarrow> int \<Rightarrow> int option \<Rightarrow> int \<Rightarrow> string list \<Rightarrow> string \<Rightarrow> 'd list \<Rightarrow> int
     \<Rightarrow> 'd world \<Rightarrow> 'd world \<times> (string \<times> 'd list \<times> int) res" where
  \<comment> \<open>\<^verbatim>\<open>for await (const chunk of rs) { buffer += chunk; ... }\<close>: each step of the iterator reads the stream, the last one finds its end.\<close>
  "importChunks e sid collName filePath BATCH_SIZE totalDocs ustart [] buffer docsBatch importedCount w =
     (case call e (ReadChunk filePath) w of
        (w1, Threw m) \<Rightarrow> (w1, Threw m)
      | (w1, Starved) \<Rightarrow> (w1, Starved)
      | (w1, Ok _) \<Rightarrow> (w1, Ok (buffer, docsBatch, importedCount)))"
| "importChunks e sid collName filePath BATCH_SIZE totalDocs ustart (chunk # rest) buffer docsBatch importedCount w =
     (case call e (ReadChunk filePath) w of
        (w1, Threw m) \<Rightarrow> (w1, Threw m)
      | (w1, Starved) \<Rightarrow> (w1, Starved)
      | (w1, Ok _) \<Rightarrow>
         (case drain e sid collName BATCH_SIZE totalDocs ustart (buffer @ chunk) docsBatch importedCount w1 of
            (w2, Threw m) \<Rightarrow> (w2, Threw m)
          | (w2, Starved) \<Rightarrow> (w2, Starved)
          | (w2, Ok (buffer', docsBatch', importedCount')) \<Rightarrow>
             importChunks e sid collName filePath BATCH_SIZE totalDocs ustart rest buffer' docsBatch' importedCount' w2))"

definition flush ::
  "'d env \<Rightarrow> string option \<Rightarrow> string \<Rightarrow> int option \<Rightarrow> int \<Rightarrow> 'd list \<Rightarrow> int \<Rightarrow> 'd world \<Rightarrow> 'd world \<times> int res" where
  \<comment> \<open>\<^verbatim>\<open>if (docsBatch.length) { await dst.insertMany(docsBatch); ... }\<close> after the stream has ended: the final \<open>importedCount\<close>.\<close>
  "flush e sid collName totalDocs ustart docsBatch importedCount w =
     (if docsBatch \<noteq> [] then
        (case call e (InsertMany collName docsBatch) w of
           (w1, Threw m) \<Rightarrow> (w1, Threw m)
         | (w1, Starved) \<Rightarrow> (w1, Starved)
         | (w1, Ok _) \<Rightarrow>
            (let importedCount' = importedCount + int (length docsBatch);
                 (t, w2) = Date_now e w1;
                 w3 = emitProgress sid ''upload-progress''
                        (progress_payload (fl e) collName ''importedCount'' totalDocs importedCount' t ustart) w2
             in (w3, Ok importedCount')))
      else (w, Ok importedCount))"

definition importFile ::
  "'d env \<Rightarrow> string option \<Rightarrow> string \<Rightarrow> int \<Rightarrow> int \<Rightarrow> string \<times> string list \<Rightarrow> 'd world \<Rightarrow> 'd world \<times> unit res" where
  \<comment> \<open>The body of \<^verbatim>\<open>for (const f of ndjsonFiles)\<close>, with \<open>importedCollections\<close> as it stands on entry.\<close>
  "importFile e sid extractDir BATCH_SIZE importedCollections f w =
     (let collName = collName_of (fst f);
          filePath = path_join extractDir (fst f)
      in case call e (DeleteMany collName) w of
           (w1, Threw m) \<Rightarrow> (w1, Threw m)
         | (w1, Starved) \<Rightarrow> (w1, Starved)
         | (w1, Ok _) \<Rightarrow>
            (let (totalDocs, w2) =
                   (case countLinesStream e filePath (snd f) w1 of
                      (w', Ok n) \<Rightarrow> (Some n, w')
                    | (w', _) \<Rightarrow> (None, w'));
                 w3 = emitProgress sid ''upload-collection-start''
                        [(''collection'', JStr collName), (''importedCollections'', JNum importedCollections),
                         (''totalDocs'', jnum_or_null totalDocs)] w2;
                 (ustart, w4) = Date_now e w3
             in case importChunks e sid collName filePath BATCH_SIZE totalDocs ustart (snd f) [] [] 0 w4 of
                  (w5, Threw m) \<Rightarrow> (w5, Threw m)
                | (w5, Starved) \<Rightarrow> (w5, Starved)
                | (w5, Ok (buffer, docsBatch, importedCount)) \<Rightarrow>
                   (case flush e sid collName totalDocs ustart docsBatch importedCount w5 of
                      (w6, Threw m) \<Rightarrow> (w6, Threw m)
                    | (w6, Starved) \<Rightarrow> (w6, Starved)
                    | (w6, Ok importedCount') \<Rightarrow>
                       (emitProgress sid ''upload-collection-done''
                          [(''collection'', JStr collName), (''importedCount'', JNum importedCount')] w6,
                        Ok ()))))"

fun importFiles ::
  "'d env \<Rightarrow> string option \<Rightarrow> string \<Rightarrow> int \<Rightarrow> int \<Rightarrow> (string \<times> string list) list \<Rightarrow> 'd world \<Rightarrow> 'd world \<times> int res" where
  "importFiles e sid extractDir BATCH_SIZE importedCollections [] w = (w, Ok importedCollections)"
| "importFiles e sid extractDir BATCH_SIZE importedCollections (f # fs) w =
     (case importFile e sid extractDir BATCH_SIZE importedCollections f w of
        (w1, Threw m) \<Rightarrow> (w1, Threw m)
      | (w1, Starved) \<Rightarrow> (w1, Starved)
      | (w1, Ok _) \<Rightarrow> importFiles e sid extractDir BATCH_SIZE (importedCollections + 1) fs w1)"

definition scheduleCleanup_call :: "'d env \<Rightarrow> string \<Rightarrow> 'd world \<Rightarrow> 'd world" where
  \<comment> \<open>\<^verbatim>\<open>scheduleCleanup(absPath)\<close> with the default delay, on the process-wide registry.\<close>
  "scheduleCleanup_call e absPath w =
     did [Schedule absPath] (w\<lparr>registry := scheduleCleanup absPath (default_ttlMs (ttl_envvar e)) (registry w)\<rparr>)"

definition upload_job :: "'d env \<Rightarrow> req \<Rightarrow> string \<Rightarrow> string \<Rightarrow> 'd world \<Rightarrow> 'd world \<times> unit res" where
  \<comment> \<open>The inner \<^verbatim>\<open>try\<close> block after \<^verbatim>\<open>client = new MongoClient(uri)\<close>.\<close>
  "upload_job e r filePath extractDir w =
     (case call e (Connect TheClient) w of
        (w1, Threw m) \<Rightarrow> (w1, Threw m)
      | (w1, Starved) \<Rightarrow> (w1, Starved)
      | (w1, Ok _) \<Rightarrow>
     (case call e (Readdir extractDir) w1 of
        (w2, Threw m) \<Rightarrow> (w2, Threw m)
      | (w2, Starved) \<Rightarrow> (w2, Starved)
      | (w2, Ok _) \<Rightarrow>
     (let ndjsonFiles = filter (\<lambda>f. endsWith (fst f) ''.ndjson'' \<or> endsWith (fst f) ''.json'') (extracted e);
          w3 = emitProgress (socketId r) ''upload-start'' [(''totalFiles'', JNum (int (length ndjsonFiles)))] w2;
          BATCH_SIZE = BATCH_SIZE_of (batchSize r)
      in case importFiles e (socketId r) extractDir BATCH_SIZE 0 ndjsonFiles w3 of
           (w4, Threw m) \<Rightarrow> (w4, Threw m)
         | (w4, Starved) \<Rightarrow> (w4, Starved)
         | (w4, Ok importedCollections) \<Rightarrow>
             respond 200 [(''ok'', JBool True), (''importedCollections'', JNum importedCollections)]
               (emitProgress (socketId r) ''upload-done'' [(''importedCollections'', JNum importedCollections)]
                  (scheduleCleanup_call e filePath (scheduleCleanup_call e extractDir w4))))))"

definition upload_try :: "'d env \<Rightarrow> req \<Rightarrow> string \<Rightarrow> string \<Rightarrow> 'd world \<Rightarrow> 'd world \<times> unit res" where
  \<comment> \<open>The outer \<^verbatim>\<open>try\<close> block: extraction, then the inner \<^verbatim>\<open>try ... finally\<close>.\<close>
  "upload_try e r filePath extractDir w =
     (case call e (Extract filePath extractDir) w of
        (w1, Threw m) \<Rightarrow> (w1, Threw m)
      | (w1, Starved) \<Rightarrow> (w1, Starved)
      | (w1, Ok _) \<Rightarrow>
         (case call e (NewMongoClient TheClient (uri r)) w1 of
            (w2, Ok _) \<Rightarrow> finally_close e TheClient (upload_job e r filePath extractDir w2)
          | (w2, x) \<Rightarrow> (w2, x)))"

definition finally_remove :: "'d env \<Rightarrow> string \<Rightarrow> 'd world \<times> unit res \<Rightarrow> 'd world \<times> unit res" where
  \<comment> \<open>\<^verbatim>\<open>finally { try { await fs.remove(filePath); } catch (e) {} }\<close>\<close>
  "finally_remove e filePath x =
     (case x of (w, r) \<Rightarrow> (fst (call e (FsRemove filePath) w), r))"

definition upload :: "'d env \<Rightarrow> req \<Rightarrow> 'd world \<Rightarrow> 'd world \<times> unit res" where
  \<comment> \<open>\<^verbatim>\<open>app.post("/api/upload", upload.single("file"), ...)\<close>\<close>
  "upload e r w =
     (if req_file r = None then respond 400 [(''error'', JStr ''Missing file'')] w
      else
        (let filePath = the (req_file r);
             (t, w1) = Date_now e w;
             extractDir = path_join UPLOAD_DIR (''extract-'' @ decimal t)
         in case call e (EnsureDir extractDir) w1 of
              (w2, Threw m) \<Rightarrow> (w2, Threw m)
            | (w2, Starved) \<Rightarrow> (w2, Starved)
            | (w2, Ok _) \<Rightarrow>
                finally_remove e filePath
                  (catch_error (socketId r) ''upload-error'' (upload_try e r filePath extractDir w2))))"

section \<open>Predicates and projections used in the statements\<close>

definition reg_inv :: "cleanups \<Rightarrow> bool" where
  \<comment> \<open>Each path has as many armed timers and running removals as it has keys (none or one); handles are fresh and distinct.\<close>
  "reg_inv r =
     ((\<forall>p. length (pending r p) + count_list (removing r) p = (if scheduledCleanups r p = None then 0 else 1))
      \<and> (\<forall>x \<in> set (timers r). fst x < nextTimer r)
      \<and> distinct (map fst (timers r)))"

fun fatal_op :: "'d op \<Rightarrow> bool" where
  \<comment> \<open>The calls whose error reaches a handler's \<^verbatim>\<open>catch\<close>: all but the two best-effort counts, the releases in \<^verbatim>\<open>finally\<close> and the \<^verbatim>\<open>ensureDir\<close> before the \<^verbatim>\<open>try\<close>.\<close>
  "fatal_op (EnsureDir _) = False"
| "fatal_op (CountDocuments _) = False"
| "fatal_op (CountLinesStream _) = False"
| "fatal_op (Close _) = False"
| "fatal_op (FsRemove _) = False"
| "fatal_op _ = True"

definition error_event :: "string \<Rightarrow> bool" where
  "error_event ev = (ev = ''backup-error'' \<or> ev = ''transfer-error'' \<or> ev = ''upload-error'')"

fun quiet :: "'d eff \<Rightarrow> bool" where
  \<comment> \<open>Neither a fatal error, nor an error event, nor a response.\<close>
  "quiet (Raise c m) = (\<not> fatal_op c)"
| "quiet (Emit sid ev p) = (\<not> error_event ev)"
| "quiet (Res status body) = False"
| "quiet _ = True"

definition calm :: "'d world \<Rightarrow> 'd world \<Rightarrow> bool" where
  \<comment> \<open>From \<open>w\<close> to \<open>w'\<close> only quiet effects were appended.\<close>
  "calm w w' = (headersSent w' = headersSent w \<and> (\<exists>ext. trace w' = trace w @ ext \<and> list_all quiet ext))"

definition failed :: "'d world \<Rightarrow> 'd world \<Rightarrow> string \<Rightarrow> bool" where
  \<comment> \<open>From \<open>w\<close> to \<open>w'\<close> quiet effects were appended and then the fatal error with message \<open>m\<close>.\<close>
  "failed w w' m =
     (headersSent w' = headersSent w
      \<and> (\<exists>pre c. trace w' = trace w @ pre @ [Raise c m] \<and> fatal_op c \<and> list_all quiet pre))"

definition steps :: "'d world \<Rightarrow> 'd world \<times> 'a res \<Rightarrow> bool" where
  \<comment> \<open>A computation that sent no response: it stayed calm, or it threw the fatal error that ends its trace.\<close>
  "steps w x = (case snd x of Threw m \<Rightarrow> failed w (fst x) m | _ \<Rightarrow> calm w (fst x))"


fun is_res :: "'d eff \<Rightarrow> bool" where
  "is_res (Res status body) = True"
| "is_res _ = False"






definition tried :: "'d world \<Rightarrow> 'd world \<times> 'a res \<Rightarrow> bool" where
  \<comment> \<open>A \<^verbatim>\<open>try\<close> block that ends with the response: it threw a fatal error as \<open>steps\<close> says, or no fatal error and no error event is in what it appended.\<close>
  "tried w x =
     (case snd x of
        Threw m \<Rightarrow> failed w (fst x) m
      | _ \<Rightarrow> (\<exists>ext. trace (fst x) = trace w @ ext \<and> list_all (\<lambda>y. quiet y \<or> is_res y) ext))"








definition parse_braces :: "string \<Rightarrow> string option" where
  \<comment> \<open>A stand-in for \<^verbatim>\<open>JSON.parse\<close> in the worked examples: a text is accepted when it opens with a brace and closes with one, and then is its own document.\<close>
  "parse_braces s = (if s \<noteq> [] \<and> hd s = CHR ''{'' \<and> last s = CHR ''}'' then Some s else None)"

definition env1 :: "string env" where
  \<comment> \<open>An environment for the worked examples: no call throws, the clock advances a second per reading, arithmetic is exact, the database holds one collection of five documents.\<close>
  "env1 = \<lparr>fault = (\<lambda>k. None), now = (\<lambda>k. 1000 * int k), fl = (\<lambda>x. x),
           JSON_parse = parse_braces, JSON_stringify = (\<lambda>d. d),
           database = [(''users'', 5, [''{a}'', ''{b}'', ''{c}'', ''{d}'', ''{e}''])],
           extracted = [],
           ttl_envvar = None\<rparr>"



definition env_upload :: "string env" where
  \<comment> \<open>As \<open>env1\<close>, with an extracted upload of one file of two lines, delivered in one chunk.\<close>
  "env_upload = env1\<lparr>extracted := [(''users.ndjson'', [''{a}'' @ [newline] @ ''{b}'' @ [newline]])]\<rparr>"

definition env_bad_uri :: "string env" where
  \<comment> \<open>As \<open>env_upload\<close>, but the third fallible call of the run throws: for an upload that is \<^verbatim>\<open>new MongoClient(uri)\<close>, which rejects an undefined connection string.\<close>
  "env_bad_uri = env_upload\<lparr>fault := (\<lambda>k. if k = 2 then Some ''Invalid connection string'' else None)\<rparr>"

fun not200 :: "'d eff \<Rightarrow> bool" where
  "not200 (Res status body) = (status \<noteq> 200)"
| "not200 _ = True"

definition finished :: "string \<Rightarrow> string \<Rightarrow> string option \<Rightarrow> 'd world \<Rightarrow> 'd world \<times> unit res \<Rightarrow> bool" where
  \<comment> \<open>The import job's \<^verbatim>\<open>try\<close> block: it ended with the two registrations, the done event and the response, or it sent no response.\<close>
  "finished d f sid w x =
     (case snd x of
        Ok _ \<Rightarrow>
          (\<exists>pre p body. trace (fst x) = trace w @ pre @ [Schedule d, Schedule f, Emit sid ''upload-done'' p, Res 200 body]
             \<and> list_all quiet pre
             \<and> scheduledCleanups (registry (fst x)) d \<noteq> None
             \<and> scheduledCleanups (registry (fst x)) f \<noteq> None)
      | _ \<Rightarrow> (\<exists>ext. trace (fst x) = trace w @ ext \<and> list_all not200 ext))"

definition completed :: "string \<Rightarrow> string \<Rightarrow> string option \<Rightarrow> 'd world \<Rightarrow> 'd world \<times> unit res \<Rightarrow> bool" where
  \<comment> \<open>The import handler's whole trace: no 200 response, or exactly one, right after the two registrations and the done event.\<close>
  "completed d f sid w x =
     (\<exists>ext. trace (fst x) = trace w @ ext
        \<and> (list_all not200 ext
            \<or> (\<exists>pre p body post.
                  ext = pre @ [Schedule d, Schedule f, Emit sid ''upload-done'' p, Res 200 body] @ post
                  \<and> list_all not200 pre \<and> list_all not200 post
                  \<and> scheduledCleanups (registry (fst x)) d \<noteq> None
                  \<and> scheduledCleanups (registry (fst x)) f \<noteq> None)))"

section \<open>Batch size\<close>

declare digits.simps [simp del]


















section \<open>The cleanup registry deduplicates by path\<close>

lemma reg_inv_init: "reg_inv no_cleanups"
  by (simp add: reg_inv_def no_cleanups_def pending_def)

lemma reg_inv_count:
  "reg_inv r \<Longrightarrow> length (pending r q) + count_list (removing r) q = (if scheduledCleanups r q = None then 0 else 1)"
  by (simp add: reg_inv_def)

lemma reg_inv_handles: "reg_inv r \<Longrightarrow> x \<in> set (timers r) \<Longrightarrow> fst x < nextTimer r"
  by (simp add: reg_inv_def)

lemma reg_inv_distinct: "reg_inv r \<Longrightarrow> distinct (map fst (timers r))"
  by (simp add: reg_inv_def)

lemma reg_inv_schedule:
  assumes "reg_inv r"
  shows "reg_inv (scheduleCleanup p ttl r)"
proof (cases "scheduledCleanups r p = None")
  case False
  then show ?thesis using assms by (simp add: scheduleCleanup_def)
next
  case True
  let ?r' = "scheduleCleanup p ttl r"
  have r': "timers ?r' = timers r @ [(nextTimer r, p, ttl)]" "nextTimer ?r' = Suc (nextTimer r)"
    "removing ?r' = removing r" "scheduledCleanups ?r' = (scheduledCleanups r)(p \<mapsto> nextTimer r)"
    using True by (simp_all add: scheduleCleanup_def Let_def)
  have fresh: "nextTimer r \<notin> fst ` set (timers r)"
    using reg_inv_handles[OF assms] by fastforce
  show ?thesis
    unfolding reg_inv_def
  proof (intro conjI allI)
    fix q
    show "length (pending ?r' q) + count_list (removing ?r') q = (if scheduledCleanups ?r' q = None then 0 else 1)"
      using reg_inv_count[OF assms, of q] True by (cases "q = p") (simp_all add: r' pending_def)
  next
    show "\<forall>x\<in>set (timers ?r'). fst x < nextTimer ?r'"
      using reg_inv_handles[OF assms] by (auto simp: r' less_Suc_eq)
  next
    show "distinct (map fst (timers ?r'))"
      using reg_inv_distinct[OF assms] fresh by (simp add: r')
  qed
qed

lemma filter_drop_handle:
  "distinct (map fst xs) \<Longrightarrow> x \<in> set xs \<Longrightarrow>
   length (filter P (filter (\<lambda>y. fst y \<noteq> fst x) xs)) + (if P x then 1 else 0) = length (filter P xs)"
proof (induction xs)
  case Nil
  then show ?case by simp
next
  case (Cons a xs)
  show ?case
  proof (cases "a = x")
    case True
    have "filter (\<lambda>y. fst y \<noteq> fst x) xs = xs"
      using Cons.prems True by (auto simp: filter_id_conv image_iff)
    then show ?thesis using True by simp
  next
    case False
    then have "x \<in> set xs" using Cons.prems by simp
    moreover have "fst a \<noteq> fst x" using Cons.prems \<open>x \<in> set xs\<close> by (auto simp: image_iff)
    ultimately show ?thesis using Cons by simp
  qed
qed

lemma find_handle:
  "find (\<lambda>x. fst x = t) xs = Some x \<Longrightarrow> x \<in> set xs \<and> fst x = t"
  by (induction xs) (auto split: if_splits)

lemma reg_inv_fire:
  assumes "reg_inv r"
  shows "reg_inv (timerFires t r)"
proof (cases "find (\<lambda>x. fst x = t) (timers r)")
  case None
  then show ?thesis using assms by (simp add: timerFires_def)
next
  case (Some x)
  then have x: "x \<in> set (timers r)" "fst x = t" using find_handle by fastforce+
  have d: "distinct (map fst (timers r))" using assms by (simp add: reg_inv_def)
  have "length (pending (timerFires t r) q) + count_list (removing (timerFires t r)) q
            = length (pending r q) + count_list (removing r) q" for q
    using filter_drop_handle[OF d x(1), of "\<lambda>y. fst (snd y) = q"] x(2)
    by (auto simp: timerFires_def Some pending_def simp del: filter_filter split: if_splits)
  moreover have "scheduledCleanups (timerFires t r) = scheduledCleanups r"
    "nextTimer (timerFires t r) = nextTimer r"
    "set (timers (timerFires t r)) \<subseteq> set (timers r)"
    "distinct (map fst (timers (timerFires t r)))"
    using d by (auto simp: timerFires_def Some distinct_map_filter)
  ultimately show ?thesis using assms unfolding reg_inv_def by auto
qed

lemma count_list_remove1_same: "p \<in> set xs \<Longrightarrow> count_list (remove1 p xs) p = count_list xs p - 1"
  by (induction xs) auto

lemma count_list_remove1_other: "q \<noteq> p \<Longrightarrow> count_list (remove1 p xs) q = count_list xs q"
  by (induction xs) auto

lemma reg_inv_settle:
  assumes "reg_inv r"
  shows "reg_inv (removeSettles p ok r)"
proof (cases "p \<in> set (removing r)")
  case False
  then show ?thesis using assms by (simp add: removeSettles_def)
next
  case True
  then have "count_list (removing r) p \<ge> 1"
    using count_list_0_iff[of "removing r" p] by (cases "count_list (removing r) p") auto
  moreover have "length (pending r p) + count_list (removing r) p \<le> 1"
    using assms by (simp add: reg_inv_def)
  ultimately have "count_list (removing r) p = 1 \<and> length (pending r p) = 0" by linarith
  then have one: "count_list (removing r) p = 1" "pending r p = []" by simp_all
  show ?thesis
    unfolding reg_inv_def
  proof (intro conjI allI)
    fix q
    show "length (pending (removeSettles p ok r) q) + count_list (removing (removeSettles p ok r)) q
            = (if scheduledCleanups (removeSettles p ok r) q = None then 0 else 1)"
    proof (cases "q = p")
      case True
      then show ?thesis using one \<open>p \<in> set (removing r)\<close>
        by (simp add: removeSettles_def pending_def count_list_remove1_same)
    next
      case False
      then show ?thesis using assms \<open>p \<in> set (removing r)\<close>
        by (simp add: removeSettles_def pending_def count_list_remove1_other reg_inv_def)
    qed
  next
    show "\<forall>x\<in>set (timers (removeSettles p ok r)). fst x < nextTimer (removeSettles p ok r)"
      using assms by (simp add: removeSettles_def reg_inv_def)
  next
    show "distinct (map fst (timers (removeSettles p ok r)))"
      using assms by (simp add: removeSettles_def reg_inv_def)
  qed
qed

lemma reg_inv_act: "reg_inv r \<Longrightarrow> reg_inv (act a r)"
  by (cases a) (simp_all add: reg_inv_schedule reg_inv_fire reg_inv_settle)

lemma reg_inv_run: "reg_inv r \<Longrightarrow> reg_inv (run acts r)"
  unfolding run_def by (induction acts arbitrary: r) (simp_all add: reg_inv_act)

lemma pending_singleton_fire:
  assumes "reg_inv r" "pending r p = [(t, p, d)]"
  shows "pending (timerFires t r) p = []" "timerFires t (timerFires t r) = timerFires t r"
    "p \<in> set (removing (timerFires t r))" "reg_inv (timerFires t r)"
proof -
  have mem: "(t, p, d) \<in> set (timers r)"
    using assms(2) unfolding pending_def by (metis filter_is_subset list.set_intros(1) subsetD)
  have dist: "distinct (map fst (timers r))" using assms(1) by (simp add: reg_inv_def)
  have "\<exists>x. find (\<lambda>x. fst x = t) (timers r) = Some x"
    using mem by (cases "find (\<lambda>x. fst x = t) (timers r)") (auto simp: find_None_iff)
  then obtain x where fx: "find (\<lambda>x. fst x = t) (timers r) = Some x" by blast
  then have x: "x \<in> set (timers r)" "fst x = t" using find_handle by fastforce+
  have "x = (t, p, d)" using dist x mem by (metis eq_key_imp_eq_value prod.collapse)
  then have fx': "find (\<lambda>x. fst x = t) (timers r) = Some (t, p, d)" using fx by simp
  have inv': "reg_inv (timerFires t r)" using assms(1) by (rule reg_inv_fire)
  show "p \<in> set (removing (timerFires t r))" by (simp add: timerFires_def fx')
  then have "count_list (removing (timerFires t r)) p \<ge> 1"
    using count_list_0_iff[of "removing (timerFires t r)" p]
    by (cases "count_list (removing (timerFires t r)) p") auto
  moreover have "length (pending (timerFires t r) p) + count_list (removing (timerFires t r)) p \<le> 1"
    using inv' by (simp add: reg_inv_def)
  ultimately have "length (pending (timerFires t r) p) = 0" by linarith
  then show "pending (timerFires t r) p = []" by simp
  have "find (\<lambda>x. fst x = t) (timers (timerFires t r)) = None"
    by (auto simp: timerFires_def fx' find_None_iff)
  then show "timerFires t (timerFires t r) = timerFires t r"
    by (simp add: timerFires_def[of t "timerFires t r"])
  show "reg_inv (timerFires t r)" by (rule inv')
qed


lemma reg_inv_unregistered:
  assumes "reg_inv r" "scheduledCleanups r p = None"
  shows "pending r p = []"
  using reg_inv_count[OF assms(1), of p] assms(2) by simp

lemma schedule_fresh:
  assumes "reg_inv r" "scheduledCleanups r p = None"
  shows "pending (scheduleCleanup p ttl r) p = [(nextTimer r, p, ttl)]"
    "scheduledCleanups (scheduleCleanup p ttl r) p = Some (nextTimer r)"
  using reg_inv_unregistered[OF assms] assms(2)
  by (simp_all add: scheduleCleanup_def Let_def pending_def)

text \<open>
  Claim C9. In every state the registry reaches from the empty one by
  scheduling, timers expiring and removals settling: at most one deletion of a
  path is armed; \<open>scheduleCleanup\<close> on a registered path changes nothing, so
  the armed timer keeps its handle and its delay; a second call before the
  timer fires leaves the first call's timer alone; once the timer has fired it
  cannot fire again, and when its removal settles, with success or with
  failure, the key is gone and the next \<open>scheduleCleanup\<close> arms a new timer.
\<close>

theorem scheduleCleanup_dedup:
  "(let r = run acts no_cleanups in
      length (pending r p) \<le> 1
    \<and> (scheduledCleanups r p \<noteq> None \<longrightarrow> scheduleCleanup p ttl r = r)
    \<and> (scheduledCleanups r p = None \<longrightarrow>
         pending (scheduleCleanup p ttl' (scheduleCleanup p ttl r)) p = [(nextTimer r, p, ttl)])
    \<and> (pending r p = [(t, p, d)] \<longrightarrow>
         pending (timerFires t r) p = []
       \<and> timerFires t (timerFires t r) = timerFires t r
       \<and> scheduledCleanups (removeSettles p ok (timerFires t r)) p = None
       \<and> pending (scheduleCleanup p ttl (removeSettles p ok (timerFires t r))) p = [(nextTimer r, p, ttl)]
       \<and> scheduledCleanups (scheduleCleanup p ttl (removeSettles p ok (timerFires t r))) p = Some (nextTimer r)))"
proof -
  define r where "r = run acts no_cleanups"
  have inv: "reg_inv r" unfolding r_def by (rule reg_inv_run[OF reg_inv_init])
  have a: "length (pending r p) \<le> 1"
    using reg_inv_count[OF inv, of p] by (simp split: if_splits)
  have b: "scheduledCleanups r p \<noteq> None \<longrightarrow> scheduleCleanup p ttl r = r"
    by (simp add: scheduleCleanup_def)
  have c: "scheduledCleanups r p = None \<longrightarrow>
         pending (scheduleCleanup p ttl' (scheduleCleanup p ttl r)) p = [(nextTimer r, p, ttl)]"
  proof
    assume n: "scheduledCleanups r p = None"
    have "scheduleCleanup p ttl' (scheduleCleanup p ttl r) = scheduleCleanup p ttl r"
      using schedule_fresh(2)[OF inv n, of ttl] by (simp add: scheduleCleanup_def[of p ttl'])
    then show "pending (scheduleCleanup p ttl' (scheduleCleanup p ttl r)) p = [(nextTimer r, p, ttl)]"
      using schedule_fresh(1)[OF inv n, of ttl] by simp
  qed
  have d: "pending r p = [(t, p, d)] \<longrightarrow>
         pending (timerFires t r) p = []
       \<and> timerFires t (timerFires t r) = timerFires t r
       \<and> scheduledCleanups (removeSettles p ok (timerFires t r)) p = None
       \<and> pending (scheduleCleanup p ttl (removeSettles p ok (timerFires t r))) p = [(nextTimer r, p, ttl)]
       \<and> scheduledCleanups (scheduleCleanup p ttl (removeSettles p ok (timerFires t r))) p = Some (nextTimer r)"
  proof
    assume pd: "pending r p = [(t, p, d)]"
    note f = pending_singleton_fire[OF inv pd]
    let ?r2 = "removeSettles p ok (timerFires t r)"
    have inv2: "reg_inv ?r2" using f(4) by (rule reg_inv_settle)
    have gone: "scheduledCleanups ?r2 p = None" using f(3) by (simp add: removeSettles_def)
    have nt: "nextTimer ?r2 = nextTimer r"
      by (simp add: removeSettles_def timerFires_def split: option.splits)
    show "pending (timerFires t r) p = []
       \<and> timerFires t (timerFires t r) = timerFires t r
       \<and> scheduledCleanups ?r2 p = None
       \<and> pending (scheduleCleanup p ttl ?r2) p = [(nextTimer r, p, ttl)]
       \<and> scheduledCleanups (scheduleCleanup p ttl ?r2) p = Some (nextTimer r)"
      using f(1,2) gone schedule_fresh[OF inv2 gone, of ttl] nt by simp
  qed
  from a b c d show ?thesis unfolding r_def Let_def by blast
qed

theorem scheduleCleanup_dedup_witness:
  "scheduledCleanups (run [ScheduleCleanup ''a'' (Some 5)] no_cleanups) ''a'' \<noteq> None
   \<and> scheduleCleanup ''a'' (Some 9) (run [ScheduleCleanup ''a'' (Some 5)] no_cleanups)
       = run [ScheduleCleanup ''a'' (Some 5)] no_cleanups
   \<and> pending (run [ScheduleCleanup ''a'' (Some 5)] no_cleanups) ''a'' = [(0, ''a'', Some 5)]
   \<and> pending (timerFires 0 (run [ScheduleCleanup ''a'' (Some 5)] no_cleanups)) ''a'' = []
   \<and> scheduledCleanups (removeSettles ''a'' False (timerFires 0 (run [ScheduleCleanup ''a'' (Some 5)] no_cleanups))) ''a'' = None
   \<and> pending (scheduleCleanup ''a'' (Some 9)
        (removeSettles ''a'' False (timerFires 0 (run [ScheduleCleanup ''a'' (Some 5)] no_cleanups)))) ''a''
       = [(1, ''a'', Some 9)]
   \<and> scheduledCleanups (run [] no_cleanups) ''a'' = None
   \<and> pending (scheduleCleanup ''a'' (Some 9) (scheduleCleanup ''a'' (Some 5) (run [] no_cleanups))) ''a''
       = [(0, ''a'', Some 5)]"
proof -
  have h1: "scheduledCleanups (run [ScheduleCleanup ''a'' (Some 5)] no_cleanups) ''a'' \<noteq> None"
    by (simp add: run_def scheduleCleanup_def no_cleanups_def Let_def)
  have h2: "pending (run [ScheduleCleanup ''a'' (Some 5)] no_cleanups) ''a'' = [(0, ''a'', Some 5)]"
    by (simp add: run_def scheduleCleanup_def no_cleanups_def Let_def pending_def)
  have h3: "nextTimer (run [ScheduleCleanup ''a'' (Some 5)] no_cleanups) = 1"
    by (simp add: run_def scheduleCleanup_def no_cleanups_def Let_def)
  have h4: "scheduledCleanups (run [] no_cleanups) ''a'' = None" "nextTimer (run [] no_cleanups) = 0"
    by (simp_all add: run_def no_cleanups_def)
  show ?thesis
    using h1 h2 h3 h4
      scheduleCleanup_dedup[of "[ScheduleCleanup ''a'' (Some 5)]" "''a''" "Some 9" "Some 9" 0 "Some 5" False]
      scheduleCleanup_dedup[of "[]" "''a''" "Some 5" "Some 9" 0 "Some 5" False]
    by (simp add: Let_def)
qed

section \<open>What a computation leaves in the trace\<close>

declare pull.simps [simp del]
declare drain.simps [simp del]



lemma call_not_Starved: "call e c w \<noteq> (w1, Starved)"
  by (auto simp: call_def split: option.splits)

lemma steps_simps [simp]:
  "steps w (w1, Ok a) = calm w w1"
  "steps w (w1, Starved) = calm w w1"
  "steps w (w1, Threw m) = failed w w1 m"
  by (simp_all add: steps_def)

lemma calm_refl [simp]: "calm w w"
  by (simp add: calm_def)
















lemma quiet_writes: "list_all quiet (map (\<lambda>d. WsWrite outFile (f d)) batch)"
  by (induction batch) auto













lemma trace_emit [simp]: "trace (emitProgress sid ev p w) = trace w @ [Emit sid ev p]"
  and headersSent_emit [simp]: "headersSent (emitProgress sid ev p w) = headersSent w"
  by (simp_all add: emitProgress_def did_def Let_def)


lemma respond_sent: "headersSent w \<Longrightarrow> \<exists>m. respond st b w = (w, Threw m)"
  by (simp add: respond_def)





lemma tried_if: "(c \<Longrightarrow> tried w0 a) \<Longrightarrow> (\<not> c \<Longrightarrow> tried w0 b) \<Longrightarrow> tried w0 (if c then a else b)"
  by simp














































section \<open>A fatal error aborts the job\<close>



end
